theory Spec2Isabelle
  imports
    Main
    "HOL-Library.Word"
    "HOL-Library.Multiset"
    "HOL-Library.AList"
    "HOL-Library.Char_ord"
    "HOL-Library.List_Lexorder"
    "HOL-Library.Product_Lexorder"
begin

section \<open>The findings models of PatrowlManager (findings/models.py)\<close>

text \<open>
  The module declares two Django models, \<open>RawFinding\<close> and \<open>Finding\<close>, a manager with
  one ordering query, an overridden \<open>save\<close> on each model, an \<open>evaluate_alert_rules\<close>
  method on each model, and four signal receivers. The embedding follows Python 3, the
  version \<open>Finding.evaluate_alert_rules\<close> was ported to (its Python 2 line is kept in
  the source as a comment).

  Collaborators that live outside the module are parameters or small state components:
  the SHA-1 function of \<open>hashlib\<close> is a parameter \<open>sha1\<close>, the clock \<open>timezone.now()\<close>
  is a parameter \<open>now\<close>, the query \<open>objects.filter(**kwargs)\<close> of the ORM is a parameter
  \<open>objects_filter\<close>, the tables of assets, raw findings and findings and the two logs (audit
  events, calls of \<open>calc_risk_grade\<close>) are fields of the state \<open>world\<close>.
\<close>

subsection \<open>Values, errors, text\<close>

type_synonym byte = "8 word"
type_synonym digest = "160 word"

text \<open>The exceptions the modelled code can raise or let through.\<close>

datatype error =
    StopIteration
  | AttributeError
  | DoesNotExist
  | FieldError
  | DatabaseError

text \<open>A JSON scalar as a rule condition stores it, and a primary key passed to a query.\<close>

datatype pyval = PyNone | PyBool bool | PyInt int | PyStr string

text \<open>
  \<open>str.encode('utf-8')\<close>. A \<open>string\<close> holds the code points below 256: one byte below
  128, two bytes from 128 on.
\<close>

definition utf8_char :: "char \<Rightarrow> byte list" where
  "utf8_char c =
     (let n = (of_char c :: nat)
      in if n < 128 then [of_nat n]
         else [of_nat (192 + n div 64), of_nat (128 + n mod 64)])"

definition encode_utf8 :: "string \<Rightarrow> byte list" where
  "encode_utf8 s = concat (map utf8_char s)"

text \<open>\<open>hexdigest()\<close>: the 160 bits as 40 lower-case hexadecimal digits, high nibble first.\<close>

definition hex_digit :: "nat \<Rightarrow> char" where
  "hex_digit n = (if n < 10 then char_of (48 + n) else char_of (87 + n))"

definition hexdigest :: "digest \<Rightarrow> string" where
  "hexdigest d = map (\<lambda>i. hex_digit (unat (drop_bit (4 * (39 - i)) d) mod 16)) [0..<40]"

text \<open>
  The expression both \<open>save\<close> methods assign to \<open>self.hash\<close>:
  \<^verbatim>\<open>hashlib.sha1(str(asset_name).encode('utf-8') + str(title).encode('utf-8')).hexdigest()\<close>
\<close>

definition hash_input :: "string \<Rightarrow> string \<Rightarrow> byte list" where
  "hash_input a t = encode_utf8 a @ encode_utf8 t"

definition compute_hash :: "(byte list \<Rightarrow> digest) \<Rightarrow> string \<Rightarrow> string \<Rightarrow> string" where
  "compute_hash sha1 a t = hexdigest (sha1 (hash_input a t))"

text \<open>\<open>str\<close> of a non-negative integer, and of an optional primary key.\<close>

fun str_nat :: "nat \<Rightarrow> string" where
  "str_nat n =
     (if n < 10 then [char_of (48 + n)]
      else str_nat (n div 10) @ [char_of (48 + n mod 10)])"

declare str_nat.simps [simp del]

definition str_pk :: "nat option \<Rightarrow> string" where
  "str_pk k = (case k of None \<Rightarrow> ''None'' | Some n \<Rightarrow> str_nat n)"

definition pk_val :: "nat option \<Rightarrow> pyval" where
  "pk_val k = (case k of None \<Rightarrow> PyNone | Some n \<Rightarrow> PyInt (int n))"

subsection \<open>The data model\<close>

text \<open>
  Modelled from the spec: the Asset collaborator (assets/models.py is not among the
  sources), with its key and the display \<open>value\<close> the module reads.
\<close>

record Asset =
  asset_pk :: nat
  asset_value :: string

text \<open>
  The columns of \<open>RawFinding\<close> that the methods and receivers of the module read or
  write; the other columns are carried unchanged by every operation and stand in the
  record's extension. \<open>pk\<close> is the column \<open>id\<close> (\<open>None\<close> until the row is inserted),
  \<open>state_adding\<close> is \<open>self._state.adding\<close>. \<open>Finding\<close> declares the same columns and
  the optional reference \<open>raw_finding\<close>.
\<close>

record RawFinding =
  pk :: "nat option"
  asset :: Asset
  asset_name :: string
  title :: string
  hash :: string
  severity :: string
  severity_num :: "int option"
  description :: string
  created_at :: nat
  updated_at :: nat
  state_adding :: bool

record Finding = RawFinding +
  raw_finding :: "nat option"

text \<open>\<open>instance.asset_id\<close>: the stored reference is the key of the referenced asset.\<close>

definition asset_id :: "'a RawFinding_scheme \<Rightarrow> nat" where
  "asset_id self = asset_pk (asset self)"

text \<open>
  Modelled from the spec: an audit event (events/models.py is not among the sources), as
  \<open>Event.objects.create\<close> receives it: message, type and severity.
\<close>

record Event =
  ev_message :: string
  ev_type :: string
  ev_severity :: string

text \<open>
  The state outside the instance: the audit events created so far, the assets whose
  \<open>calc_risk_grade\<close> was called (in call order), and the tables of assets, of raw
  findings and of findings, each keyed by the column \<open>id\<close>.
\<close>

record world =
  events :: "Event list"
  risk_grade_calls :: "Asset list"
  assets :: "nat \<rightharpoonup> Asset"
  rawfinding_rows :: "nat \<rightharpoonup> RawFinding"
  finding_rows :: "nat \<rightharpoonup> Finding"

definition Event_objects_create :: "string \<Rightarrow> string \<Rightarrow> string \<Rightarrow> world \<Rightarrow> world" where
  "Event_objects_create msg ty sev w =
     w\<lparr>events := events w @ [\<lparr>ev_message = msg, ev_type = ty, ev_severity = sev\<rparr>]\<rparr>"

definition calc_risk_grade :: "Asset \<Rightarrow> world \<Rightarrow> world" where
  "calc_risk_grade a w = w\<lparr>risk_grade_calls := risk_grade_calls w @ [a]\<rparr>"

text \<open>\<open>Asset.objects.get(id=k)\<close> raises \<open>DoesNotExist\<close> when no row has the key.\<close>

definition Asset_objects_get :: "nat \<Rightarrow> world \<Rightarrow> error + Asset" where
  "Asset_objects_get k w = (case assets w k of None \<Rightarrow> Inl DoesNotExist | Some a \<Rightarrow> Inr a)"

subsection \<open>String forms\<close>

definition RawFinding_str :: "'a RawFinding_scheme \<Rightarrow> string" where
  "RawFinding_str self =
     str_pk (pk self) @ ''/'' @ asset_value (asset self) @ ''/'' @ title self"

definition Finding_str :: "Finding \<Rightarrow> string" where
  "Finding_str self = str_pk (pk self) @ ''/'' @ title self"

subsection \<open>Signal receivers\<close>

definition rawfinding_create_update_log :: "bool \<Rightarrow> RawFinding \<Rightarrow> world \<Rightarrow> world" where
  "rawfinding_create_update_log created instance w =
     (if created then
        Event_objects_create
          (''[RawFinding] New raw finding created (id='' @ str_pk (pk instance) @ ''): ''
             @ RawFinding_str instance)
          ''CREATE'' ''DEBUG'' w
      else
        Event_objects_create
          (''[RawFinding] Raw finding '' @ [CHR 0x27] @ RawFinding_str instance @ [CHR 0x27]
             @ '' modified (id='' @ str_pk (pk instance) @ '')'')
          ''UPDATE'' ''DEBUG'' w)"

definition rawfinding_delete_log :: "RawFinding \<Rightarrow> world \<Rightarrow> world" where
  "rawfinding_delete_log instance w =
     Event_objects_create
       (''[RawFinding] Raw finding '' @ [CHR 0x27] @ RawFinding_str instance @ [CHR 0x27]
          @ '' deleted (id='' @ str_pk (pk instance) @ '')'')
       ''DELETE'' ''DEBUG'' w"

text \<open>
  In its update branch the receiver of \<open>post_save\<close> reads \<open>instance.asset\<close>, which
  looks the asset up by the stored reference, and the receiver of \<open>post_delete\<close> calls
  \<open>Asset.objects.get\<close> with the stored reference. Neither catches the lookup's
  exception, so a reference that resolves to no asset ends the receiver before anything
  else happens.
\<close>

definition finding_create_update_log ::
  "bool \<Rightarrow> Finding \<Rightarrow> world \<Rightarrow> (error + unit) \<times> world" where
  "finding_create_update_log created instance w =
     (if created then
        (Inr (),
         Event_objects_create
           (''[Finding] New finding created (id='' @ str_pk (pk instance) @ ''): ''
              @ Finding_str instance)
           ''CREATE'' ''DEBUG'' w)
      else
        (case Asset_objects_get (asset_id instance) w of
           Inl e \<Rightarrow> (Inl e, w)
         | Inr a \<Rightarrow>
             (Inr (),
              Event_objects_create
                (''[Finding] Finding '' @ [CHR 0x27] @ Finding_str instance @ [CHR 0x27]
                   @ '' modified (id='' @ str_pk (pk instance) @ '')'')
                ''UPDATE'' ''DEBUG''
                (calc_risk_grade a w))))"

definition finding_delete_log :: "Finding \<Rightarrow> world \<Rightarrow> (error + unit) \<times> world" where
  "finding_delete_log instance w =
     (case Asset_objects_get (asset_id instance) w of
        Inl e \<Rightarrow> (Inl e, w)
      | Inr a \<Rightarrow>
          (Inr (),
           Event_objects_create
             (''[Finding] Finding '' @ [CHR 0x27] @ Finding_str instance @ [CHR 0x27]
                @ '' deleted (id='' @ str_pk (pk instance) @ '')'')
             ''DELETE'' ''DEBUG''
             (calc_risk_grade a w)))"

subsection \<open>Saving\<close>

text \<open>
  \<open>super().save()\<close> is Django's. When the instance has a key it first tries an UPDATE
  of the row with that key; when the instance has no key, or the UPDATE hits no row, it
  inserts the row, under the instance's key or, if it has none, under the key \<open>new_pk\<close>
  that the database assigns. It then clears \<open>_state.adding\<close> and sends \<open>post_save\<close>
  with \<open>created\<close> true exactly when no row was updated. The row is written before the
  signal is sent, so an exception of a receiver leaves it written. The result is the
  instance as the call leaves it, with what the receiver returns.
\<close>

definition update_hits_row :: "(nat \<rightharpoonup> 'row) \<Rightarrow> nat option \<Rightarrow> bool" where
  "update_hits_row table k = (case k of None \<Rightarrow> False | Some n \<Rightarrow> table n \<noteq> None)"

definition Model_save ::
  "(world \<Rightarrow> nat \<rightharpoonup> 'a RawFinding_scheme)
     \<Rightarrow> ((nat \<rightharpoonup> 'a RawFinding_scheme) \<Rightarrow> world \<Rightarrow> world)
     \<Rightarrow> (bool \<Rightarrow> 'a RawFinding_scheme \<Rightarrow> world \<Rightarrow> 'r)
     \<Rightarrow> nat \<Rightarrow> 'a RawFinding_scheme \<Rightarrow> world \<Rightarrow> 'a RawFinding_scheme \<times> 'r" where
  "Model_save table put post_save new_pk self w =
     (let updated = update_hits_row (table w) (pk self);
          key = (case pk self of None \<Rightarrow> new_pk | Some n \<Rightarrow> n);
          self = self\<lparr>pk := Some key, state_adding := False\<rparr>;
          w = put ((table w)(key \<mapsto> self)) w
      in (self, post_save (\<not> updated) self w))"

definition RawFinding_save ::
  "(byte list \<Rightarrow> digest) \<Rightarrow> nat \<Rightarrow> nat \<Rightarrow> RawFinding \<Rightarrow> world \<Rightarrow> RawFinding \<times> world" where
  "RawFinding_save sha1 now new_pk self w =
     (let self = self\<lparr>hash := compute_hash sha1 (asset_name self) (title self)\<rparr>;
          self =
            (if severity self = ''info'' then self\<lparr>severity_num := Some 1\<rparr>
             else if severity self = ''low'' then self\<lparr>severity_num := Some 2\<rparr>
             else if severity self = ''medium'' then self\<lparr>severity_num := Some 3\<rparr>
             else if severity self = ''high'' then self\<lparr>severity_num := Some 4\<rparr>
             else self\<lparr>severity_num := Some 0\<rparr>);
          self = (if \<not> state_adding self then self\<lparr>updated_at := now\<rparr> else self)
      in Model_save rawfinding_rows (\<lambda>t w. w\<lparr>rawfinding_rows := t\<rparr>)
           rawfinding_create_update_log new_pk self w)"

definition Finding_save ::
  "(byte list \<Rightarrow> digest) \<Rightarrow> nat \<Rightarrow> nat \<Rightarrow> Finding \<Rightarrow> world
     \<Rightarrow> Finding \<times> (error + unit) \<times> world" where
  "Finding_save sha1 now new_pk self w =
     (let self = self\<lparr>hash := compute_hash sha1 (asset_name self) (title self)\<rparr>;
          self =
            (if severity self = ''info'' then self\<lparr>severity_num := Some 1\<rparr>
             else if severity self = ''low'' then self\<lparr>severity_num := Some 2\<rparr>
             else if severity self = ''medium'' then self\<lparr>severity_num := Some 3\<rparr>
             else if severity self = ''high'' then self\<lparr>severity_num := Some 4\<rparr>
             else self\<lparr>severity_num := Some 0\<rparr>);
          self = (if \<not> state_adding self then self\<lparr>updated_at := now\<rparr> else self)
      in Model_save finding_rows (\<lambda>t w. w\<lparr>finding_rows := t\<rparr>)
           finding_create_update_log new_pk self w)"

subsection \<open>The ordering query of the manager\<close>

text \<open>
  \<open>FindingManager.severity_ordering\<close> annotates each row with \<open>severity_order\<close>, a
  \<open>Case\<close> over the severity label with default 0, and orders by
  \<open>('-severity_order', 'asset_name', 'title')\<close>. The manager serves both models.
  Strings are compared by code point; rows that agree on all three keys stay in the
  order of the table (the database leaves their order open).
\<close>

definition severity_order :: "string \<Rightarrow> int" where
  "severity_order s =
     (if s = ''info'' then 0
      else if s = ''low'' then 1
      else if s = ''medium'' then 2
      else if s = ''high'' then 3
      else if s = ''critical'' then 4
      else 0)"

definition severity_ordering ::
  "('a RawFinding_scheme \<Rightarrow> bool) \<Rightarrow> 'a RawFinding_scheme list \<Rightarrow> 'a RawFinding_scheme list" where
  "severity_ordering flt table =
     sort_key (\<lambda>r. (- severity_order (severity r), asset_name r, title r)) (filter flt table)"

subsection \<open>Alert rules\<close>

text \<open>
  Modelled from the spec: the Rule collaborator (rules/models.py is not among the
  sources), with the fields the module reads: the enabled flag, the scope, the optional
  trigger label, the attribute prefix \<open>scope_attr\<close> and the condition, a JSON object
  kept as its entries in iteration order.
\<close>

record Rule =
  rule_pk :: nat
  enabled :: bool
  scope :: string
  trigger :: "string option"
  scope_attr :: string
  condition :: "(string \<times> pyval) list"

text \<open>What one call of \<open>rule.notify(message=..., asset=..., description=...)\<close> dispatches.\<close>

record Notification =
  n_rule :: Rule
  n_message :: string
  n_asset :: Asset
  n_description :: string

definition Rule_notify ::
  "Rule \<Rightarrow> string \<Rightarrow> Asset \<Rightarrow> string \<Rightarrow> Notification list \<Rightarrow> Notification list" where
  "Rule_notify rule msg a descr sent =
     sent @ [\<lparr>n_rule = rule, n_message = msg, n_asset = a, n_description = descr\<rparr>]"

text \<open>
  \<open>next(iter(d))\<close> and \<open>next(iter(d.values()))\<close> raise \<open>StopIteration\<close> on an empty
  dictionary. A Python 3 dictionary has no attribute \<open>itervalues\<close>.
\<close>

definition first_key :: "('k \<times> 'v) list \<Rightarrow> error + 'k" where
  "first_key d = (case d of [] \<Rightarrow> Inl StopIteration | (k, v) # _ \<Rightarrow> Inr k)"

definition first_value :: "('k \<times> 'v) list \<Rightarrow> error + 'v" where
  "first_value d = (case d of [] \<Rightarrow> Inl StopIteration | (k, v) # _ \<Rightarrow> Inr v)"

definition itervalues :: "('k \<times> 'v) list \<Rightarrow> error + 'v list" where
  "itervalues d = Inl AttributeError"

text \<open>
  The dictionary display \<open>{"id": self.id, rule.scope_attr + <first key>: <first value>}\<close>:
  the key expression is evaluated before the value expression, and a second entry under
  the key \<open>"id"\<close> replaces the first.
\<close>

definition Finding_kwargs :: "Finding \<Rightarrow> Rule \<Rightarrow> error + (string \<times> pyval) list" where
  "Finding_kwargs self rule =
     (case first_key (condition rule) of
        Inl e \<Rightarrow> Inl e
      | Inr k \<Rightarrow>
          (case first_value (condition rule) of
             Inl e \<Rightarrow> Inl e
           | Inr v \<Rightarrow> Inr (AList.update (scope_attr rule @ k) v [(''id'', pk_val (pk self))])))"

definition RawFinding_kwargs :: "RawFinding \<Rightarrow> Rule \<Rightarrow> error + (string \<times> pyval) list" where
  "RawFinding_kwargs self rule =
     (case first_key (condition rule) of
        Inl e \<Rightarrow> Inl e
      | Inr k \<Rightarrow>
          (case itervalues (condition rule) of
             Inl e \<Rightarrow> Inl e
           | Inr vs \<Rightarrow>
               (case vs of
                  [] \<Rightarrow> Inl StopIteration
                | v # _ \<Rightarrow> Inr (AList.update (scope_attr rule @ k) v [(''id'', pk_val (pk self))]))))"

text \<open>
  The test of the loop body, \<open>if Finding.objects.filter(**kwargs)\<close>: the query set is
  true when it has a row. An exception of the query is not caught.
\<close>

definition Finding_rule_matches ::
  "((string \<times> pyval) list \<Rightarrow> error + Finding list) \<Rightarrow> Finding \<Rightarrow> Rule \<Rightarrow> error + bool" where
  "Finding_rule_matches objects_filter self rule =
     (case Finding_kwargs self rule of
        Inl e \<Rightarrow> Inl e
      | Inr kwargs \<Rightarrow>
          (case objects_filter kwargs of
             Inl e \<Rightarrow> Inl e
           | Inr rows \<Rightarrow> Inr (rows \<noteq> [])))"

definition RawFinding_rule_matches ::
  "((string \<times> pyval) list \<Rightarrow> error + RawFinding list) \<Rightarrow> RawFinding \<Rightarrow> Rule \<Rightarrow> error + bool" where
  "RawFinding_rule_matches objects_filter self rule =
     (case RawFinding_kwargs self rule of
        Inl e \<Rightarrow> Inl e
      | Inr kwargs \<Rightarrow>
          (case objects_filter kwargs of
             Inl e \<Rightarrow> Inl e
           | Inr rows \<Rightarrow> Inr (rows \<noteq> [])))"

text \<open>
  The loop \<open>for rule in rules\<close>, with the counter and the notifications dispatched so
  far. An exception leaves the loop at once; what was dispatched before stays dispatched.
\<close>

fun Finding_rules_loop ::
  "((string \<times> pyval) list \<Rightarrow> error + Finding list) \<Rightarrow> Finding \<Rightarrow> Rule list \<Rightarrow> int
     \<Rightarrow> Notification list \<Rightarrow> (error + int) \<times> Notification list" where
  "Finding_rules_loop objects_filter self [] nb_matches sent = (Inr nb_matches, sent)"
| "Finding_rules_loop objects_filter self (rule # rules) nb_matches sent =
     (case Finding_rule_matches objects_filter self rule of
        Inl e \<Rightarrow> (Inl e, sent)
      | Inr matched \<Rightarrow>
          if matched then
            Finding_rules_loop objects_filter self rules (nb_matches + 1)
              (Rule_notify rule (''[Asset='' @ asset_value (asset self) @ ''] '' @ title self)
                 (asset self) (description self) sent)
          else Finding_rules_loop objects_filter self rules nb_matches sent)"

fun RawFinding_rules_loop ::
  "((string \<times> pyval) list \<Rightarrow> error + RawFinding list) \<Rightarrow> RawFinding \<Rightarrow> Rule list \<Rightarrow> int
     \<Rightarrow> Notification list \<Rightarrow> (error + int) \<times> Notification list" where
  "RawFinding_rules_loop objects_filter self [] nb_matches sent = (Inr nb_matches, sent)"
| "RawFinding_rules_loop objects_filter self (rule # rules) nb_matches sent =
     (case RawFinding_rule_matches objects_filter self rule of
        Inl e \<Rightarrow> (Inl e, sent)
      | Inr matched \<Rightarrow>
          if matched then
            RawFinding_rules_loop objects_filter self rules (nb_matches + 1)
              (Rule_notify rule (''[Asset='' @ asset_value (asset self) @ ''] '' @ title self)
                 (asset self) (description self) sent)
          else RawFinding_rules_loop objects_filter self rules nb_matches sent)"

text \<open>
  \<open>evaluate_alert_rules(self, trigger='all')\<close>. \<open>all_rules\<close> is the table behind
  \<open>Rule.objects\<close>. The result is the returned count or the exception that ended the
  call, with the notifications the call dispatched.
\<close>

definition Finding_evaluate_alert_rules ::
  "((string \<times> pyval) list \<Rightarrow> error + Finding list) \<Rightarrow> Rule list \<Rightarrow> Finding \<Rightarrow> string
     \<Rightarrow> (error + int) \<times> Notification list" where
  "Finding_evaluate_alert_rules objects_filter all_rules self trigger_arg =
     (let rules =
        (if trigger_arg = ''all'' then
           filter (\<lambda>r. enabled r \<and> scope r = ''finding'') all_rules
         else
           filter (\<lambda>r. enabled r \<and> scope r = ''finding'' \<and> trigger r = Some trigger_arg)
             all_rules)
      in Finding_rules_loop objects_filter self rules 0 [])"

definition RawFinding_evaluate_alert_rules ::
  "((string \<times> pyval) list \<Rightarrow> error + RawFinding list) \<Rightarrow> Rule list \<Rightarrow> RawFinding \<Rightarrow> string
     \<Rightarrow> (error + int) \<times> Notification list" where
  "RawFinding_evaluate_alert_rules objects_filter all_rules self trigger_arg =
     (let rules =
        (if trigger_arg = ''all'' then
           filter (\<lambda>r. enabled r \<and> scope r = ''finding'') all_rules
         else
           filter (\<lambda>r. enabled r \<and> scope r = ''finding'' \<and> trigger r = Some trigger_arg)
             all_rules)
      in RawFinding_rules_loop objects_filter self rules 0 [])"

subsection \<open>The contract of rule evaluation, in the words of the specification\<close>

text \<open>
  The three notions the specification uses to describe rule evaluation, to be compared
  with what the loop computes: the rules selected for a trigger (the enabled rules of
  scope \<open>finding\<close>, further filtered by equal trigger label when the trigger is not
  \<open>all\<close>), the lookup predicate of a rule for a finding
  (\<open>{id: finding.id, scope_attr + first condition key: first condition value}\<close>), and
  the notification of a match (message \<open>[Asset=<asset value>] <title>\<close>, with the
  asset and the description as context).
\<close>

definition selected_rules :: "Rule list \<Rightarrow> string \<Rightarrow> Rule list" where
  "selected_rules all_rules trigger_arg =
     filter (\<lambda>r. enabled r \<and> scope r = ''finding''
                \<and> (trigger_arg = ''all'' \<or> trigger r = Some trigger_arg)) all_rules"

definition lookup_predicate :: "'a RawFinding_scheme \<Rightarrow> Rule \<Rightarrow> (string \<times> pyval) list" where
  "lookup_predicate self rule =
     AList.update (scope_attr rule @ fst (hd (condition rule))) (snd (hd (condition rule)))
       [(''id'', pk_val (pk self))]"

definition alert_notification :: "'a RawFinding_scheme \<Rightarrow> Rule \<Rightarrow> Notification" where
  "alert_notification self rule =
     \<lparr>n_rule = rule,
      n_message = ''[Asset='' @ asset_value (asset self) @ ''] '' @ title self,
      n_asset = asset self,
      n_description = description self\<rparr>"

subsection \<open>Sample data\<close>

text \<open>
  The rows, rules and stores at which the properties below are evaluated. The sample
  world holds the sample asset, raw finding and finding; the empty world holds no row.
  The sample digest stands in for SHA-1 where a hash is evaluated (SHA-1 itself is
  \<open>hashlib\<close>'s and stays a parameter): it reads the bytes as a base-256 numeral behind a
  leading 1. The sample store answers exact-match lookups on the columns \<open>id\<close>, \<open>severity\<close> and \<open>title\<close>
  and raises \<open>FieldError\<close> for any other lookup name, as the ORM does for a name it
  cannot resolve.
\<close>

definition sample_asset :: Asset where
  "sample_asset = \<lparr>asset_pk = 7, asset_value = ''host1''\<rparr>"

definition sample_raw_finding :: RawFinding where
  "sample_raw_finding =
     \<lparr>pk = Some 3, asset = sample_asset, asset_name = ''host1'', title = ''Open Port'',
      hash = [], severity = ''high'', severity_num = Some 1, description = ''port 22 is open'',
      created_at = 10, updated_at = 10, state_adding = False\<rparr>"

definition sample_finding :: Finding where
  "sample_finding =
     \<lparr>pk = Some 3, asset = sample_asset, asset_name = ''host1'', title = ''Open Port'',
      hash = [], severity = ''high'', severity_num = Some 1, description = ''port 22 is open'',
      created_at = 10, updated_at = 10, state_adding = False, raw_finding = None\<rparr>"

definition empty_world :: world where
  "empty_world =
     \<lparr>events = [], risk_grade_calls = [], assets = Map.empty,
      rawfinding_rows = Map.empty, finding_rows = Map.empty\<rparr>"

definition sample_world :: world where
  "sample_world =
     \<lparr>events = [], risk_grade_calls = [], assets = [7 \<mapsto> sample_asset],
      rawfinding_rows = [3 \<mapsto> sample_raw_finding], finding_rows = [3 \<mapsto> sample_finding]\<rparr>"

definition sample_column :: "string \<Rightarrow> Finding \<Rightarrow> pyval option" where
  "sample_column name row =
     (if name = ''id'' then Some (pk_val (pk row))
      else if name = ''severity'' \<or> name = ''severity__exact'' then Some (PyStr (severity row))
      else if name = ''title'' \<or> name = ''title__exact'' then Some (PyStr (title row))
      else None)"

definition sample_store :: "(string \<times> pyval) list \<Rightarrow> error + Finding list" where
  "sample_store kwargs =
     (if list_all (\<lambda>kv. sample_column (fst kv) sample_finding \<noteq> None) kwargs then
        Inr (filter (\<lambda>row. list_all (\<lambda>kv. sample_column (fst kv) row = Some (snd kv)) kwargs)
               [sample_finding])
      else Inl FieldError)"

definition rule_high :: Rule where
  "rule_high =
     \<lparr>rule_pk = 1, enabled = True, scope = ''finding'', trigger = Some ''auto'',
      scope_attr = ''severity'', condition = [(''__exact'', PyStr ''high'')]\<rparr>"

definition rule_low :: Rule where
  "rule_low =
     \<lparr>rule_pk = 2, enabled = True, scope = ''finding'', trigger = Some ''auto'',
      scope_attr = ''severity'', condition = [(''__exact'', PyStr ''low'')]\<rparr>"

definition rule_unknown_field :: Rule where
  "rule_unknown_field =
     \<lparr>rule_pk = 3, enabled = True, scope = ''finding'', trigger = Some ''auto'',
      scope_attr = ''colour'', condition = [(''__exact'', PyStr ''red'')]\<rparr>"

definition rule_empty_condition :: Rule where
  "rule_empty_condition =
     \<lparr>rule_pk = 4, enabled = True, scope = ''finding'', trigger = Some ''auto'',
      scope_attr = ''severity'', condition = []\<rparr>"

definition sample_digest :: "byte list \<Rightarrow> digest" where
  "sample_digest bs = of_nat (foldl (\<lambda>n b. 256 * n + unat b) 1 bs)"

definition with_severity :: "string \<Rightarrow> Finding" where
  "with_severity s = sample_finding\<lparr>severity := s\<rparr>"

section \<open>Properties\<close>

subsection \<open>Severity rank on save\<close>

text \<open>
  C3. Every save of a RawFinding or of a Finding, whether it creates the row or updates
  it, stores the rank computed from the severity label: 1 for info, 2 for low, 3 for
  medium, 4 for high, and 0 for every other label, critical included.
\<close>

theorem save_severity_num:
  "severity_num (fst (RawFinding_save sha1 now k r w)) =
     Some (if severity r = ''info'' then 1 else if severity r = ''low'' then 2
           else if severity r = ''medium'' then 3 else if severity r = ''high'' then 4 else 0)
   \<and> severity_num (fst (Finding_save sha1 now k f w)) =
     Some (if severity f = ''info'' then 1 else if severity f = ''low'' then 2
           else if severity f = ''medium'' then 3 else if severity f = ''high'' then 4 else 0)"
  by (simp add: RawFinding_save_def Finding_save_def Model_save_def Let_def)

subsection \<open>Timestamps on save\<close>


subsection \<open>Risk-grade recomputation\<close>

lemma risk_grade_calls_Event_objects_create:
  "risk_grade_calls (Event_objects_create m ty sev w) = risk_grade_calls w"
  by (simp add: Event_objects_create_def)

lemma risk_grade_calls_calc_risk_grade:
  "risk_grade_calls (calc_risk_grade a w) = risk_grade_calls w @ [a]"
  by (simp add: calc_risk_grade_def)

lemma post_save_outcome:
  "fst (finding_create_update_log created f w) =
     (if created then Inr ()
      else case assets w (asset_id f) of None \<Rightarrow> Inl DoesNotExist | Some a \<Rightarrow> Inr ())"
  "risk_grade_calls (snd (finding_create_update_log created f w)) =
     (if created then risk_grade_calls w
      else case assets w (asset_id f) of
             None \<Rightarrow> risk_grade_calls w
           | Some a \<Rightarrow> risk_grade_calls w @ [a])"
  by (simp_all add: finding_create_update_log_def Asset_objects_get_def
      risk_grade_calls_Event_objects_create risk_grade_calls_calc_risk_grade
      split: option.split)

lemma post_delete_outcome:
  "fst (finding_delete_log f w) =
     (case assets w (asset_id f) of None \<Rightarrow> Inl DoesNotExist | Some a \<Rightarrow> Inr ())"
  "risk_grade_calls (snd (finding_delete_log f w)) =
     (case assets w (asset_id f) of
        None \<Rightarrow> risk_grade_calls w
      | Some a \<Rightarrow> risk_grade_calls w @ [a])"
  by (simp_all add: finding_delete_log_def Asset_objects_get_def
      risk_grade_calls_Event_objects_create risk_grade_calls_calc_risk_grade
      split: option.split)

lemma Finding_save_outcome:
  "fst (snd (Finding_save sha1 now new_pk f w)) =
     (if update_hits_row (finding_rows w) (pk f)
      then case assets w (asset_id f) of None \<Rightarrow> Inl DoesNotExist | Some a \<Rightarrow> Inr ()
      else Inr ())"
  "risk_grade_calls (snd (snd (Finding_save sha1 now new_pk f w))) =
     (if update_hits_row (finding_rows w) (pk f)
      then case assets w (asset_id f) of
             None \<Rightarrow> risk_grade_calls w
           | Some a \<Rightarrow> risk_grade_calls w @ [a]
      else risk_grade_calls w)"
  by (simp_all add: Finding_save_def Model_save_def Let_def post_save_outcome asset_id_def
      split: option.split)

lemma rawfinding_receivers_no_call:
  "risk_grade_calls (rawfinding_create_update_log created r w) = risk_grade_calls w"
  "risk_grade_calls (rawfinding_delete_log r w) = risk_grade_calls w"
  by (simp_all add: rawfinding_create_update_log_def rawfinding_delete_log_def
      risk_grade_calls_Event_objects_create)

lemma RawFinding_save_no_call:
  "risk_grade_calls (snd (RawFinding_save sha1 now new_pk r w)) = risk_grade_calls w"
  by (simp add: RawFinding_save_def Model_save_def Let_def rawfinding_receivers_no_call)

text \<open>
  C1. Creating a Finding, that is a save that inserts its row, calls the risk-grade
  recomputation of no asset. Every update, that is a save that updates its row, and
  every delete calls it exactly once, on the owning asset, the asset the stored reference
  resolves to. No create, update or delete of a RawFinding calls it. The owning asset
  is taken to exist, as the claim has it; C9 has the delete whose asset is gone.
\<close>

theorem risk_grade_call_counts:
  "(\<not> update_hits_row (finding_rows w) (pk f) \<longrightarrow>
      fst (snd (Finding_save sha1 now new_pk f w)) = Inr ()
      \<and> risk_grade_calls (snd (snd (Finding_save sha1 now new_pk f w))) = risk_grade_calls w)
   \<and> (update_hits_row (finding_rows w) (pk f) \<and> assets w (asset_id f) = Some a \<longrightarrow>
      fst (snd (Finding_save sha1 now new_pk f w)) = Inr ()
      \<and> risk_grade_calls (snd (snd (Finding_save sha1 now new_pk f w))) = risk_grade_calls w @ [a])
   \<and> (assets w (asset_id f) = Some a \<longrightarrow>
      fst (finding_delete_log f w) = Inr ()
      \<and> risk_grade_calls (snd (finding_delete_log f w)) = risk_grade_calls w @ [a])
   \<and> risk_grade_calls (snd (finding_create_update_log True f w)) = risk_grade_calls w
   \<and> (assets w (asset_id f) = Some a \<longrightarrow>
      risk_grade_calls (snd (finding_create_update_log False f w)) = risk_grade_calls w @ [a])
   \<and> risk_grade_calls (snd (RawFinding_save sha1 now new_pk r w)) = risk_grade_calls w
   \<and> risk_grade_calls (rawfinding_create_update_log created r w) = risk_grade_calls w
   \<and> risk_grade_calls (rawfinding_delete_log r w) = risk_grade_calls w"
  by (simp add: Finding_save_outcome post_save_outcome post_delete_outcome
      RawFinding_save_no_call rawfinding_receivers_no_call)

theorem risk_grade_call_counts_witness:
  "\<forall>sha1.
     risk_grade_calls (snd (snd (Finding_save sha1 50 9
        (sample_finding\<lparr>pk := None, state_adding := True\<rparr>) sample_world))) = []
     \<and> risk_grade_calls (snd (snd (Finding_save sha1 50 9 sample_finding sample_world)))
         = [sample_asset]
     \<and> risk_grade_calls (snd (finding_delete_log sample_finding sample_world)) = [sample_asset]"
proof (intro allI)
  fix sha1 :: "byte list \<Rightarrow> digest"
  let ?new = "sample_finding\<lparr>pk := None, state_adding := True\<rparr>"
  have no_row: "\<not> update_hits_row (finding_rows sample_world) (pk ?new)"
    by (simp add: update_hits_row_def)
  have row: "update_hits_row (finding_rows sample_world) (pk sample_finding)"
    by (simp add: update_hits_row_def sample_world_def sample_finding_def)
  have a: "assets sample_world (asset_id sample_finding) = Some sample_asset"
    by (simp add: sample_world_def asset_id_def sample_finding_def sample_asset_def)
  have e: "risk_grade_calls sample_world = []"
    by (simp add: sample_world_def)
  note c = risk_grade_call_counts [where w = sample_world and a = sample_asset]
  from c [where f = ?new, THEN conjunct1, THEN mp, OF no_row]
  have 1: "risk_grade_calls (snd (snd (Finding_save sha1 50 9 ?new sample_world))) = []"
    by (simp add: e)
  from c [where f = sample_finding, THEN conjunct2, THEN conjunct1, THEN mp, OF conjI [OF row a]]
  have 2: "risk_grade_calls (snd (snd (Finding_save sha1 50 9 sample_finding sample_world)))
         = [sample_asset]"
    by (simp add: e)
  from c [where f = sample_finding, THEN conjunct2, THEN conjunct2, THEN conjunct1, THEN mp, OF a]
  have 3: "risk_grade_calls (snd (finding_delete_log sample_finding sample_world)) = [sample_asset]"
    by (simp add: e)
  from 1 2 3 show "risk_grade_calls (snd (snd (Finding_save sha1 50 9 ?new sample_world))) = []
     \<and> risk_grade_calls (snd (snd (Finding_save sha1 50 9 sample_finding sample_world)))
         = [sample_asset]
     \<and> risk_grade_calls (snd (finding_delete_log sample_finding sample_world)) = [sample_asset]"
    by blast
qed

subsection \<open>Deleting a finding whose asset is gone\<close>

text \<open>
  C9. When the stored asset reference of a deleted Finding resolves to no asset, the
  receiver ends with the lookup's \<open>DoesNotExist\<close>, passed on to the caller, and does
  nothing else. When it resolves, the receiver takes the asset found under the stored
  reference, recomputes its risk grade and logs the DELETE event.
\<close>

theorem finding_delete_asset_resolution:
  "(assets w (asset_id f) = None \<longrightarrow> finding_delete_log f w = (Inl DoesNotExist, w))
   \<and> (assets w (asset_id f) = Some a \<longrightarrow>
        fst (finding_delete_log f w) = Inr ()
        \<and> risk_grade_calls (snd (finding_delete_log f w)) = risk_grade_calls w @ [a]
        \<and> map ev_type (events (snd (finding_delete_log f w))) = map ev_type (events w) @ [''DELETE''])"
  by (simp add: finding_delete_log_def Asset_objects_get_def
      Event_objects_create_def calc_risk_grade_def)

theorem finding_delete_asset_resolution_witness:
  "finding_delete_log sample_finding empty_world = (Inl DoesNotExist, empty_world)
   \<and> fst (finding_delete_log sample_finding sample_world) = Inr ()
   \<and> risk_grade_calls (snd (finding_delete_log sample_finding sample_world)) = [sample_asset]"
  using finding_delete_asset_resolution [of empty_world sample_finding]
    finding_delete_asset_resolution [of sample_world sample_finding sample_asset]
  by (simp add: asset_id_def sample_finding_def sample_asset_def empty_world_def sample_world_def)

subsection \<open>The severity ordering\<close>

lemma ordering_key_le:
  "(- severity_order (severity a), asset_name a, title a)
     \<le> (- severity_order (severity b), asset_name b, title b)
   \<Longrightarrow> severity_order (severity a) > severity_order (severity b)
     \<or> (severity_order (severity a) = severity_order (severity b)
        \<and> (asset_name a < asset_name b \<or> (asset_name a = asset_name b \<and> title a \<le> title b)))"
  by (auto simp: less_eq_prod_def less_prod_def)

text \<open>
  C2, as the code has it. The ordering query returns the rows that pass the filter,
  sorted by the rank of its own annotation, descending (info 0, low 1, medium 2, high 3,
  critical 4, any other label 0), then by asset name ascending, then by title ascending.
  Findings with the severities low, critical, info, high and equal asset name and title
  come back in the order critical, high, low, info.
\<close>

theorem severity_ordering_sorted:
  "sorted_wrt
     (\<lambda>a b. severity_order (severity a) > severity_order (severity b)
        \<or> (severity_order (severity a) = severity_order (severity b)
           \<and> (asset_name a < asset_name b \<or> (asset_name a = asset_name b \<and> title a \<le> title b))))
     (severity_ordering flt table)
   \<and> mset (severity_ordering flt table) = mset (filter flt table)
   \<and> severity_order ''info'' = 0 \<and> severity_order ''low'' = 1 \<and> severity_order ''medium'' = 2
   \<and> severity_order ''high'' = 3 \<and> severity_order ''critical'' = 4
   \<and> map severity
        (severity_ordering (\<lambda>_. True) (map with_severity [''low'', ''critical'', ''info'', ''high'']))
       = [''critical'', ''high'', ''low'', ''info'']"
proof -
  let ?key = "\<lambda>r::'a RawFinding_scheme. (- severity_order (severity r), asset_name r, title r)"
  have "sorted (map ?key (severity_ordering flt table))"
    unfolding severity_ordering_def by (rule sorted_sort_key)
  then have "sorted_wrt (\<lambda>a b. ?key a \<le> ?key b) (severity_ordering flt table)"
    by (simp add: sorted_wrt_map)
  then have s: "sorted_wrt
     (\<lambda>a b. severity_order (severity a) > severity_order (severity b)
        \<or> (severity_order (severity a) = severity_order (severity b)
           \<and> (asset_name a < asset_name b \<or> (asset_name a = asset_name b \<and> title a \<le> title b))))
     (severity_ordering flt table)"
    by (rule sorted_wrt_mono_rel [rotated]) (use ordering_key_le in blast)
  have m: "mset (severity_ordering flt table) = mset (filter flt table)"
    by (simp add: severity_ordering_def)
  have e: "map severity
      (severity_ordering (\<lambda>_. True) (map with_severity [''low'', ''critical'', ''info'', ''high'']))
       = [''critical'', ''high'', ''low'', ''info'']"
    by (simp add: severity_ordering_def with_severity_def sample_finding_def severity_order_def)
  show ?thesis using s m e by (simp add: severity_order_def)
qed

text \<open>
  C2 as stated fails: with the severities low, critical, info, high and equal asset name
  and title, the query puts critical first, not last.
\<close>

theorem ordering_puts_critical_first:
  "map severity
     (severity_ordering (\<lambda>_. True) (map with_severity [''low'', ''critical'', ''info'', ''high'']))
     = [''critical'', ''high'', ''low'', ''info'']
   \<and> map severity
     (severity_ordering (\<lambda>_. True) (map with_severity [''low'', ''critical'', ''info'', ''high'']))
     \<noteq> [''high'', ''low'', ''info'', ''critical'']"
  by (simp add: severity_ordering_def with_severity_def sample_finding_def severity_order_def)

subsection \<open>Rule evaluation on a Finding\<close>

lemma Finding_rules_loop_all_answer:
  "\<forall>r\<in>set rs. \<exists>b. Finding_rule_matches objects_filter self r = Inr b \<Longrightarrow>
   Finding_rules_loop objects_filter self rs nb sent =
     (Inr (nb + int (length [r\<leftarrow>rs. Finding_rule_matches objects_filter self r = Inr True])),
      sent @ map (alert_notification self) [r\<leftarrow>rs. Finding_rule_matches objects_filter self r = Inr True])"
proof (induction rs arbitrary: nb sent)
  case Nil
  then show ?case by simp
next
  case (Cons r rs)
  then obtain b where b: "Finding_rule_matches objects_filter self r = Inr b" by auto
  from Cons.prems have rest: "\<forall>r\<in>set rs. \<exists>b. Finding_rule_matches objects_filter self r = Inr b"
    by simp
  show ?case
    by (cases b) (simp_all add: b Cons.IH [OF rest] Rule_notify_def alert_notification_def)
qed

lemma Finding_rules_loop_first_failure:
  "\<forall>p\<in>set pre. \<exists>b. Finding_rule_matches objects_filter self p = Inr b \<Longrightarrow>
   Finding_rule_matches objects_filter self r = Inl e \<Longrightarrow>
   Finding_rules_loop objects_filter self (pre @ r # post) nb sent =
     (Inl e,
      sent @ map (alert_notification self) [p\<leftarrow>pre. Finding_rule_matches objects_filter self p = Inr True])"
proof (induction pre arbitrary: nb sent)
  case Nil
  then show ?case by simp
next
  case (Cons p pre)
  then obtain b where b: "Finding_rule_matches objects_filter self p = Inr b" by auto
  from Cons.prems have rest: "\<forall>p\<in>set pre. \<exists>b. Finding_rule_matches objects_filter self p = Inr b"
    by simp
  show ?case
    by (cases b)
      (simp_all add: b Cons.IH [OF rest Cons.prems(2)] Rule_notify_def alert_notification_def)
qed

lemma Finding_evaluate_alert_rules_selected:
  "Finding_evaluate_alert_rules objects_filter all_rules self t =
     Finding_rules_loop objects_filter self (selected_rules all_rules t) 0 []"
  by (simp add: Finding_evaluate_alert_rules_def selected_rules_def)

lemma Finding_rule_matches_nonempty:
  "condition r \<noteq> [] \<Longrightarrow>
   Finding_rule_matches objects_filter self r =
     (case objects_filter (lookup_predicate self r) of
        Inl e \<Rightarrow> Inl e
      | Inr rows \<Rightarrow> Inr (rows \<noteq> []))"
  by (cases "condition r")
    (auto simp: Finding_rule_matches_def Finding_kwargs_def first_key_def first_value_def
      lookup_predicate_def split: sum.splits)

lemma Finding_rule_matches_empty:
  "condition r = [] \<Longrightarrow> Finding_rule_matches objects_filter self r = Inl StopIteration"
  by (simp add: Finding_rule_matches_def Finding_kwargs_def first_key_def)

text \<open>
  C5. For every Finding and trigger, when every selected rule has a condition entry and
  the store answers its lookup, \<open>evaluate_alert_rules\<close> looks at exactly the selected
  rules, matches each against its lookup predicate, returns the number of rules whose
  lookup finds a row, and dispatches for each of them, in order, exactly one notification
  with the message \<open>[Asset=<asset value>] <title>\<close>, the asset and the description.
\<close>

theorem finding_alert_rules_contract:
  assumes "\<forall>r\<in>set (selected_rules all_rules t).
             condition r \<noteq> [] \<and> (\<exists>rows. objects_filter (lookup_predicate self r) = Inr rows)"
  shows "Finding_evaluate_alert_rules objects_filter all_rules self t =
     (Inr (int (length [r\<leftarrow>selected_rules all_rules t.
                          objects_filter (lookup_predicate self r) \<noteq> Inr []])),
      map (alert_notification self)
        [r\<leftarrow>selected_rules all_rules t. objects_filter (lookup_predicate self r) \<noteq> Inr []])"
proof -
  let ?sel = "selected_rules all_rules t"
  have m: "Finding_rule_matches objects_filter self r =
             Inr (objects_filter (lookup_predicate self r) \<noteq> Inr [])" if "r \<in> set ?sel" for r
  proof -
    from assms that obtain rows where
      ne: "condition r \<noteq> []" and rows: "objects_filter (lookup_predicate self r) = Inr rows"
      by blast
    show ?thesis by (simp add: Finding_rule_matches_nonempty [OF ne] rows)
  qed
  then have ok: "\<forall>r\<in>set ?sel. \<exists>b. Finding_rule_matches objects_filter self r = Inr b"
    by blast
  have f: "[r\<leftarrow>?sel. Finding_rule_matches objects_filter self r = Inr True] =
           [r\<leftarrow>?sel. objects_filter (lookup_predicate self r) \<noteq> Inr []]"
    by (rule filter_cong) (simp_all add: m)
  show ?thesis
    by (simp add: Finding_evaluate_alert_rules_selected Finding_rules_loop_all_answer [OF ok] f)
qed

theorem finding_alert_rules_contract_witness:
  "Finding_evaluate_alert_rules sample_store [rule_low, rule_high] sample_finding ''all'' =
     (Inr 1,
      [\<lparr>n_rule = rule_high, n_message = ''[Asset=host1] Open Port'',
        n_asset = sample_asset, n_description = ''port 22 is open''\<rparr>])"
  using finding_alert_rules_contract [of "[rule_low, rule_high]" "''all''" sample_store sample_finding]
  by (simp add: selected_rules_def lookup_predicate_def alert_notification_def sample_store_def
      sample_column_def rule_low_def rule_high_def sample_finding_def sample_asset_def pk_val_def)

subsection \<open>Failing rules\<close>

lemma sample_match_high: "Finding_rule_matches sample_store sample_finding rule_high = Inr True"
  by (simp add: Finding_rule_matches_def Finding_kwargs_def first_key_def first_value_def
      sample_store_def sample_column_def rule_high_def sample_finding_def pk_val_def)

lemma sample_match_unknown:
  "Finding_rule_matches sample_store sample_finding rule_unknown_field = Inl FieldError"
  by (simp add: Finding_rule_matches_def Finding_kwargs_def first_key_def first_value_def
      sample_store_def sample_column_def rule_unknown_field_def sample_finding_def pk_val_def)

text \<open>
  C6, as the code has it. A rule whose condition mapping is empty makes its evaluation
  fail with the \<open>StopIteration\<close> of taking the first key of an empty mapping; it is
  neither skipped nor matched. No failure of a rule is isolated: the first selected rule
  that fails, for whatever reason, ends the whole evaluation with its exception, no match
  count is returned, the rules after it are not evaluated, and the notifications of the
  matches before it stay dispatched.
\<close>

theorem first_failing_rule_ends_evaluation:
  "(condition r = [] \<longrightarrow> Finding_rule_matches objects_filter self r = Inl StopIteration)
   \<and> (selected_rules all_rules t = pre @ r # post
        \<and> (\<forall>p\<in>set pre. \<exists>b. Finding_rule_matches objects_filter self p = Inr b)
        \<and> Finding_rule_matches objects_filter self r = Inl e
      \<longrightarrow> Finding_evaluate_alert_rules objects_filter all_rules self t =
            (Inl e,
             map (alert_notification self)
               [p\<leftarrow>pre. Finding_rule_matches objects_filter self p = Inr True]))"
proof (intro conjI impI)
  assume "condition r = []"
  then show "Finding_rule_matches objects_filter self r = Inl StopIteration"
    by (rule Finding_rule_matches_empty)
next
  assume a: "selected_rules all_rules t = pre @ r # post
        \<and> (\<forall>p\<in>set pre. \<exists>b. Finding_rule_matches objects_filter self p = Inr b)
        \<and> Finding_rule_matches objects_filter self r = Inl e"
  then have sel: "selected_rules all_rules t = pre @ r # post"
    and ok: "\<forall>p\<in>set pre. \<exists>b. Finding_rule_matches objects_filter self p = Inr b"
    and bad: "Finding_rule_matches objects_filter self r = Inl e"
    by simp_all
  show "Finding_evaluate_alert_rules objects_filter all_rules self t =
            (Inl e,
             map (alert_notification self)
               [p\<leftarrow>pre. Finding_rule_matches objects_filter self p = Inr True])"
    by (simp add: Finding_evaluate_alert_rules_selected sel
        Finding_rules_loop_first_failure [OF ok bad])
qed

theorem first_failing_rule_ends_evaluation_witness:
  "Finding_rule_matches sample_store sample_finding rule_empty_condition = Inl StopIteration
   \<and> Finding_evaluate_alert_rules sample_store [rule_high, rule_unknown_field, rule_high]
        sample_finding ''all'' =
       (Inl FieldError, [alert_notification sample_finding rule_high])"
proof -
  have sel: "selected_rules [rule_high, rule_unknown_field, rule_high] ''all'' =
               [rule_high] @ rule_unknown_field # [rule_high]"
    by (simp add: selected_rules_def rule_high_def rule_unknown_field_def)
  have e: "condition rule_empty_condition = []"
    by (simp add: rule_empty_condition_def)
  from first_failing_rule_ends_evaluation
         [of rule_empty_condition sample_store sample_finding]
  have 1: "Finding_rule_matches sample_store sample_finding rule_empty_condition = Inl StopIteration"
    using e by blast
  from first_failing_rule_ends_evaluation
         [of rule_unknown_field sample_store sample_finding
             "[rule_high, rule_unknown_field, rule_high]" "''all''" "[rule_high]" "[rule_high]"
             FieldError]
  have 2: "Finding_evaluate_alert_rules sample_store [rule_high, rule_unknown_field, rule_high]
        sample_finding ''all'' =
       (Inl FieldError,
        map (alert_notification sample_finding)
          [p\<leftarrow>[rule_high]. Finding_rule_matches sample_store sample_finding p = Inr True])"
    using sel sample_match_high sample_match_unknown by auto
  show ?thesis using 1 2 by (simp add: sample_match_high)
qed

text \<open>
  C6 as stated fails. A rule naming an unknown column fails in the store; the evaluation
  then ends with that exception and the matching rule after it is never notified, where
  the claim has the failure isolated and a count of one. A rule with an empty condition
  ends the evaluation with \<open>StopIteration\<close>; the module has no \<open>InvalidRuleError\<close>.
\<close>

theorem failing_rule_is_not_isolated:
  "Finding_rule_matches sample_store sample_finding rule_high = Inr True
   \<and> Finding_evaluate_alert_rules sample_store [rule_unknown_field, rule_high] sample_finding ''all''
       = (Inl FieldError, [])
   \<and> Finding_evaluate_alert_rules sample_store [rule_empty_condition, rule_high] sample_finding ''all''
       = (Inl StopIteration, [])"
  by (simp add: Finding_evaluate_alert_rules_def Finding_rule_matches_def Finding_kwargs_def
      first_key_def first_value_def sample_store_def sample_column_def rule_high_def
      rule_unknown_field_def rule_empty_condition_def sample_finding_def pk_val_def)

subsection \<open>Rule evaluation on a RawFinding\<close>

lemma RawFinding_rule_matches_fails:
  "RawFinding_rule_matches objects_filter self r =
     Inl (if condition r = [] then StopIteration else AttributeError)"
  by (cases "condition r")
    (auto simp: RawFinding_rule_matches_def RawFinding_kwargs_def first_key_def itervalues_def)

text \<open>
  C7 does not hold of the code. \<open>RawFinding.evaluate_alert_rules\<close> still takes the
  condition's value with \<open>itervalues\<close>, which a Python 3 dictionary does not have: unless
  no rule is selected, the call ends at the first selected rule, with \<open>AttributeError\<close>
  when its condition has an entry, and neither counts nor notifies anything.
  \<open>Finding.evaluate_alert_rules\<close> has the corrected line.
\<close>

theorem rawfinding_alert_rules_fail:
  "RawFinding_evaluate_alert_rules objects_filter all_rules self t =
     (case selected_rules all_rules t of
        [] \<Rightarrow> (Inr 0, [])
      | r # rs \<Rightarrow> (Inl (if condition r = [] then StopIteration else AttributeError), []))
   \<and> RawFinding_evaluate_alert_rules objects_filter [rule_low, rule_high] sample_raw_finding ''all''
       = (Inl AttributeError, [])"
proof -
  have sel: "RawFinding_evaluate_alert_rules objects_filter rules self t =
     RawFinding_rules_loop objects_filter self (selected_rules rules t) 0 []" for rules
    by (simp add: RawFinding_evaluate_alert_rules_def selected_rules_def)
  have 1: "RawFinding_evaluate_alert_rules objects_filter all_rules self t =
     (case selected_rules all_rules t of
        [] \<Rightarrow> (Inr 0, [])
      | r # rs \<Rightarrow> (Inl (if condition r = [] then StopIteration else AttributeError), []))"
    by (cases "selected_rules all_rules t") (simp_all add: sel RawFinding_rule_matches_fails)
  have 2: "RawFinding_evaluate_alert_rules objects_filter [rule_low, rule_high] sample_raw_finding ''all''
       = (Inl AttributeError, [])"
    by (simp add: RawFinding_evaluate_alert_rules_def RawFinding_rule_matches_fails
        rule_low_def rule_high_def)
  show ?thesis using 1 2 by simp
qed

subsection \<open>The deduplication hash\<close>

lemma encode_utf8_append: "encode_utf8 (a @ t) = encode_utf8 a @ encode_utf8 t"
  by (simp add: encode_utf8_def)

lemma hash_input_concat: "hash_input a t = encode_utf8 (a @ t)"
  by (simp add: hash_input_def encode_utf8_append)

lemma unat_byte_of_nat: "k < 256 \<Longrightarrow> unat (of_nat k :: byte) = k"
  by (simp add: unat_of_nat)

lemma unat_utf8_char:
  "map unat (utf8_char c) =
     (if of_char c < (128::nat) then [of_char c]
      else [192 + of_char c div 64, 128 + of_char c mod 64])"
proof -
  let ?n = "of_char c :: nat"
  have n: "?n < 256" by (rule nat_of_char_less_256)
  then have a: "192 + ?n div 64 < 256" and b: "128 + ?n mod 64 < 256" by arith+
  show ?thesis
  proof (cases "?n < 128")
    case True
    then show ?thesis
      unfolding utf8_char_def Let_def using unat_byte_of_nat [OF n]
      by (simp only: if_True list.map)
  next
    case False
    then show ?thesis
      unfolding utf8_char_def Let_def
      using unat_byte_of_nat [OF a] unat_byte_of_nat [OF b]
      by (simp only: if_False list.map)
  qed
qed


lemma utf8_char_prefix:
  assumes "utf8_char c @ xs = utf8_char d @ ys"
  shows "c = d \<and> xs = ys"
proof -
  let ?n = "of_char c :: nat" and ?m = "of_char d :: nat"
  have n: "?n < 256" and m: "?m < 256" by (rule nat_of_char_less_256)+
  from assms have "map unat (utf8_char c @ xs) = map unat (utf8_char d @ ys)"
    by (rule arg_cong)
  then have e: "map unat (utf8_char c) @ map unat xs = map unat (utf8_char d) @ map unat ys"
    by (simp only: map_append)
  have "?n = ?m"
  proof (cases "?n < 128")
    case cn: True
    show ?thesis
    proof (cases "?m < 128")
      case True
      with cn e show ?thesis by (simp add: unat_utf8_char)
    next
      case False
      with cn e have "?n = 192 + ?m div 64" by (simp add: unat_utf8_char)
      with cn show ?thesis by arith
    qed
  next
    case cn: False
    show ?thesis
    proof (cases "?m < 128")
      case True
      with cn e have "192 + ?n div 64 = ?m" by (simp add: unat_utf8_char)
      with True show ?thesis by arith
    next
      case False
      with cn e have "?n div 64 = ?m div 64" and "?n mod 64 = ?m mod 64"
        by (simp_all add: unat_utf8_char)
      then show ?thesis by (metis div_mult_mod_eq)
    qed
  qed
  then have "char_of ?n = (char_of ?m :: char)" by (rule arg_cong)
  then have cd: "c = d" by (simp only: char_of_char)
  with assms show ?thesis by simp
qed

lemma utf8_char_nonempty: "utf8_char c \<noteq> []"
  by (simp add: utf8_char_def Let_def)

lemma encode_utf8_inj: "encode_utf8 s = encode_utf8 s' \<Longrightarrow> s = s'"
proof (induction s arbitrary: s')
  case Nil
  then show ?case
    by (cases s') (simp_all add: encode_utf8_def utf8_char_nonempty)
next
  case (Cons c s)
  show ?case
  proof (cases s')
    case Nil
    with Cons.prems show ?thesis
      by (simp add: encode_utf8_def utf8_char_nonempty)
  next
    case (Cons d u)
    with Cons.prems have "utf8_char c @ encode_utf8 s = utf8_char d @ encode_utf8 u"
      by (simp add: encode_utf8_def)
    then have "c = d" and "encode_utf8 s = encode_utf8 u"
      using utf8_char_prefix by blast+
    with Cons.IH Cons show ?thesis by simp
  qed
qed

lemma hex_digit_inj: "a < 16 \<Longrightarrow> b < 16 \<Longrightarrow> hex_digit a = hex_digit b \<Longrightarrow> a = b"
  by (auto simp: hex_digit_def char_of_quasi_inj split: if_splits)

lemma nibble_bit:
  "k < 4 \<Longrightarrow> bit (unat (drop_bit (4 * j) (d::digest)) mod 16) k = bit d (4 * j + k)"
proof -
  assume k: "k < 4"
  have "unat (drop_bit (4 * j) d) mod 16 = take_bit 4 (unat (drop_bit (4 * j) d))"
    by (simp add: take_bit_eq_mod)
  then show ?thesis
    using k by (simp add: bit_take_bit_iff bit_unsigned_iff bit_drop_bit_eq possible_bit_def)
qed


lemma hexdigest_inj: "hexdigest d = hexdigest d' \<Longrightarrow> d = d'"
proof (rule bit_word_eqI)
  fix n
  assume eq: "hexdigest d = hexdigest d'" and n: "n < LENGTH(160)"
  let ?nib = "\<lambda>(w::digest) i. unat (drop_bit (4 * (39 - i)) w) mod 16"
  from eq have all: "\<forall>i\<in>set [0..<40]. hex_digit (?nib d i) = hex_digit (?nib d' i)"
    unfolding hexdigest_def by (simp only: map_eq_conv)
  let ?j = "n div 4" and ?k = "n mod 4"
  from n have j: "?j < 40" by simp
  then have i: "39 - ?j \<in> set [0..<40]" by simp
  have inv: "39 - (39 - ?j) = ?j" using j by arith
  from all i have "hex_digit (?nib d (39 - ?j)) = hex_digit (?nib d' (39 - ?j))"
    by blast
  then have h: "hex_digit (unat (drop_bit (4 * ?j) d) mod 16)
              = hex_digit (unat (drop_bit (4 * ?j) d') mod 16)"
    by (simp only: inv)
  have "unat (drop_bit (4 * ?j) d) mod 16 = unat (drop_bit (4 * ?j) d') mod 16"
    by (rule hex_digit_inj [OF _ _ h]) simp_all
  then have "bit (unat (drop_bit (4 * ?j) d) mod 16) ?k
           = bit (unat (drop_bit (4 * ?j) d') mod 16) ?k"
    by (rule arg_cong)
  then have "bit d (4 * ?j + ?k) = bit d' (4 * ?j + ?k)"
    by (simp only: nibble_bit [of ?k ?j] mod_less_divisor zero_less_numeral)
  then show "bit d n = bit d' n" by simp
qed

lemma compute_hash_eq_iff:
  "compute_hash sha1 a t = compute_hash sha1 a' t'
     \<longleftrightarrow> sha1 (hash_input a t) = sha1 (hash_input a' t')"
  by (auto simp: compute_hash_def dest: hexdigest_inj)

lemma saved_hash:
  "hash (fst (RawFinding_save sha1 now k r w)) = compute_hash sha1 (asset_name r) (title r)"
  "hash (fst (Finding_save sha1 now k f w)) = compute_hash sha1 (asset_name f) (title f)"
  by (simp_all add: RawFinding_save_def Finding_save_def Model_save_def Let_def)

lemma sample_corpus_bytes:
  "encode_utf8 (''host1'' @ ''Open Port'') =
     [104, 111, 115, 116, 49, 79, 112, 101, 110, 32, 80, 111, 114, 116]"
  "encode_utf8 (''host1'' @ ''Open Port 22'') =
     [104, 111, 115, 116, 49, 79, 112, 101, 110, 32, 80, 111, 114, 116, 32, 50, 50]"
  "encode_utf8 (''host2'' @ ''Open Port'') =
     [104, 111, 115, 116, 50, 79, 112, 101, 110, 32, 80, 111, 114, 116]"
  by (simp_all add: encode_utf8_def utf8_char_def)

lemma sample_digest_no_collision:
  "inj_on sample_digest
     {encode_utf8 (''host1'' @ ''Open Port''), encode_utf8 (''host1'' @ ''Open Port 22''),
      encode_utf8 (''host2'' @ ''Open Port'')}"
  unfolding sample_corpus_bytes by (simp add: sample_digest_def)

text \<open>
  C4. Every save of a RawFinding or of a Finding stores the hash computed from the asset
  name and the title at that moment, so the same inputs give the same hash, also when
  the row is saved again. The hash is the hexadecimal form of the SHA-1 digest of the
  UTF-8 bytes of the concatenation of the two fields, with no delimiter. On every set of
  byte strings on which SHA-1 has no collision, the sense in which the digest is
  injective in practice, changing either input while the other is held fixed changes
  the hash.
\<close>

theorem changing_an_input_changes_the_hash:
  "hash (fst (RawFinding_save sha1 now k r w)) = compute_hash sha1 (asset_name r) (title r)
   \<and> hash (fst (Finding_save sha1 now k f w)) = compute_hash sha1 (asset_name f) (title f)
   \<and> hash (fst (RawFinding_save sha1 now' k' (fst (RawFinding_save sha1 now k r w)) w'))
       = hash (fst (RawFinding_save sha1 now k r w))
   \<and> hash (fst (Finding_save sha1 now' k' (fst (Finding_save sha1 now k f w)) w'))
       = hash (fst (Finding_save sha1 now k f w))
   \<and> compute_hash sha1 a t = hexdigest (sha1 (encode_utf8 (a @ t)))
   \<and> (inj_on sha1 corpus \<and> encode_utf8 (a @ t) \<in> corpus \<and> encode_utf8 (a @ t') \<in> corpus
        \<and> t \<noteq> t' \<longrightarrow> compute_hash sha1 a t \<noteq> compute_hash sha1 a t')
   \<and> (inj_on sha1 corpus \<and> encode_utf8 (a @ t) \<in> corpus \<and> encode_utf8 (a' @ t) \<in> corpus
        \<and> a \<noteq> a' \<longrightarrow> compute_hash sha1 a t \<noteq> compute_hash sha1 a' t)"
proof -
  have 1: "compute_hash sha1 a t = hexdigest (sha1 (encode_utf8 (a @ t)))"
    by (simp add: compute_hash_def hash_input_concat)
  have 2: "compute_hash sha1 a t \<noteq> compute_hash sha1 a t'"
    if "inj_on sha1 corpus" "encode_utf8 (a @ t) \<in> corpus" "encode_utf8 (a @ t') \<in> corpus"
       "t \<noteq> t'"
  proof
    assume "compute_hash sha1 a t = compute_hash sha1 a t'"
    then have "sha1 (encode_utf8 (a @ t)) = sha1 (encode_utf8 (a @ t'))"
      by (simp add: compute_hash_eq_iff hash_input_concat)
    with that have "encode_utf8 (a @ t) = encode_utf8 (a @ t')"
      by (simp add: inj_on_def)
    then have "a @ t = a @ t'" by (rule encode_utf8_inj)
    with that show False by simp
  qed
  have 3: "compute_hash sha1 a t \<noteq> compute_hash sha1 a' t"
    if "inj_on sha1 corpus" "encode_utf8 (a @ t) \<in> corpus" "encode_utf8 (a' @ t) \<in> corpus"
       "a \<noteq> a'"
  proof
    assume "compute_hash sha1 a t = compute_hash sha1 a' t"
    then have "sha1 (encode_utf8 (a @ t)) = sha1 (encode_utf8 (a' @ t))"
      by (simp add: compute_hash_eq_iff hash_input_concat)
    with that have "encode_utf8 (a @ t) = encode_utf8 (a' @ t)"
      by (simp add: inj_on_def)
    then have "a @ t = a' @ t" by (rule encode_utf8_inj)
    with that show False by simp
  qed
  have 5: "hash (fst (RawFinding_save sha1 now' k' (fst (RawFinding_save sha1 now k r w)) w'))
       = hash (fst (RawFinding_save sha1 now k r w))"
    by (simp add: RawFinding_save_def Model_save_def Let_def)
  have 6: "hash (fst (Finding_save sha1 now' k' (fst (Finding_save sha1 now k f w)) w'))
       = hash (fst (Finding_save sha1 now k f w))"
    by (simp add: Finding_save_def Model_save_def Let_def)
  show ?thesis using saved_hash [of sha1 now k] 1 2 3 5 6 by blast
qed

theorem changing_an_input_changes_the_hash_witness:
  "compute_hash sample_digest ''host1'' ''Open Port''
     \<noteq> compute_hash sample_digest ''host1'' ''Open Port 22''
   \<and> compute_hash sample_digest ''host1'' ''Open Port''
     \<noteq> compute_hash sample_digest ''host2'' ''Open Port''"
proof -
  let ?corpus = "{encode_utf8 (''host1'' @ ''Open Port''),
                  encode_utf8 (''host1'' @ ''Open Port 22''),
                  encode_utf8 (''host2'' @ ''Open Port'')}"
  have inj: "inj_on sample_digest ?corpus" by (rule sample_digest_no_collision)
  have m1: "encode_utf8 (''host1'' @ ''Open Port'') \<in> ?corpus" by (rule insertI1)
  have m2: "encode_utf8 (''host1'' @ ''Open Port 22'') \<in> ?corpus"
    by (rule insertI2) (rule insertI1)
  have m3: "encode_utf8 (''host2'' @ ''Open Port'') \<in> ?corpus"
    by (rule insertI2) (rule insertI2, rule insertI1)
  have n1: "''Open Port'' \<noteq> ''Open Port 22''" and n2: "''host1'' \<noteq> ''host2''"
    by simp_all
  note c = changing_an_input_changes_the_hash
      [of sample_digest _ _ _ _ _ _ _ _ "''host1''" "''Open Port''" ?corpus
          "''Open Port 22''" "''host2''"]
  note c6 = c [THEN conjunct2, THEN conjunct2, THEN conjunct2, THEN conjunct2,
               THEN conjunct2, THEN conjunct1]
  note c7 = c [THEN conjunct2, THEN conjunct2, THEN conjunct2, THEN conjunct2,
               THEN conjunct2, THEN conjunct2]
  have 1: "compute_hash sample_digest ''host1'' ''Open Port''
     \<noteq> compute_hash sample_digest ''host1'' ''Open Port 22''"
    by (rule c6 [THEN mp]) (intro conjI inj m1 m2 n1)
  have 2: "compute_hash sample_digest ''host1'' ''Open Port''
     \<noteq> compute_hash sample_digest ''host2'' ''Open Port''"
    by (rule c7 [THEN mp]) (intro conjI inj m1 m3 n2)
  from 1 2 show ?thesis by (rule conjI)
qed

text \<open>
  C10. The hash depends only on the concatenation of asset name and title: two pairs
  with the same concatenation, such as (\<open>ab\<close>, \<open>c\<close>) and (\<open>a\<close>, \<open>bc\<close>), give a
  RawFinding or a Finding the same hash on save.
\<close>

theorem equal_concatenation_equal_hash:
  "a @ t = a' @ t' \<Longrightarrow>
     compute_hash sha1 a t = compute_hash sha1 a' t'
     \<and> hash (fst (RawFinding_save sha1 now k (r\<lparr>asset_name := a, title := t\<rparr>) w))
       = hash (fst (RawFinding_save sha1 now' k' (r'\<lparr>asset_name := a', title := t'\<rparr>) w'))
     \<and> hash (fst (Finding_save sha1 now k (f\<lparr>asset_name := a, title := t\<rparr>) w))
       = hash (fst (Finding_save sha1 now' k' (f'\<lparr>asset_name := a', title := t'\<rparr>) w'))"
  by (simp add: saved_hash compute_hash_def hash_input_concat)

theorem equal_concatenation_equal_hash_witness:
  "\<forall>sha1.
     compute_hash sha1 ''ab'' ''c'' = compute_hash sha1 ''a'' ''bc''
     \<and> hash (fst (RawFinding_save sha1 5 9 (sample_raw_finding\<lparr>asset_name := ''ab'', title := ''c''\<rparr>) empty_world))
       = hash (fst (RawFinding_save sha1 6 9 (sample_raw_finding\<lparr>asset_name := ''a'', title := ''bc''\<rparr>) sample_world))
     \<and> hash (fst (Finding_save sha1 5 9 (sample_finding\<lparr>asset_name := ''ab'', title := ''c''\<rparr>) empty_world))
       = hash (fst (Finding_save sha1 6 9 (sample_finding\<lparr>asset_name := ''a'', title := ''bc''\<rparr>) sample_world))"
proof (intro allI)
  fix sha1 :: "byte list \<Rightarrow> digest"
  have c: "''ab'' @ ''c'' = ''a'' @ ''bc''" by simp
  show "compute_hash sha1 ''ab'' ''c'' = compute_hash sha1 ''a'' ''bc''
     \<and> hash (fst (RawFinding_save sha1 5 9 (sample_raw_finding\<lparr>asset_name := ''ab'', title := ''c''\<rparr>) empty_world))
       = hash (fst (RawFinding_save sha1 6 9 (sample_raw_finding\<lparr>asset_name := ''a'', title := ''bc''\<rparr>) sample_world))
     \<and> hash (fst (Finding_save sha1 5 9 (sample_finding\<lparr>asset_name := ''ab'', title := ''c''\<rparr>) empty_world))
       = hash (fst (Finding_save sha1 6 9 (sample_finding\<lparr>asset_name := ''a'', title := ''bc''\<rparr>) sample_world))"
    by (rule equal_concatenation_equal_hash [OF c])
qed

end
